theory Spec2Isabelle
  imports Main
begin

section \<open>The service worker of Cafe Serenity: cache lifecycle and request routing\<close>

text \<open>
  The worker (\<^verbatim>\<open>sw.js\<close>) handles three events of its host: \<^verbatim>\<open>install\<close>,
  \<^verbatim>\<open>activate\<close> and \<^verbatim>\<open>fetch\<close>. Each handler is embedded as a function over an
  explicit state: the cache storage of the origin and the log of the host calls the handler
  makes. A promise that rejects is the value \<open>Inl\<close> of a sum, one that resolves is \<open>Inr\<close>;
  \<^verbatim>\<open>try { ... } catch\<close> is the case distinction on that sum.
\<close>

subsection \<open>Requests, responses, caches\<close>

text \<open>
  A request as the handlers read it: \<^verbatim>\<open>request.url\<close> (the absolute URL, a string),
  \<^verbatim>\<open>request.mode\<close> and \<^verbatim>\<open>request.destination\<close>.
\<close>

record request =
  url :: string
  mode :: string
  destination :: string

text \<open>
  A response: status, status text, headers as written, and the body as the bytes of its
  UTF-8 encoding.
\<close>

record response =
  status :: nat
  statusText :: string
  headers :: "(string \<times> string) list"
  body :: string

text \<open>\<^verbatim>\<open>response.ok\<close>: the status is in the range 200 to 299.\<close>

definition ok :: "response \<Rightarrow> bool" where
  "ok r \<longleftrightarrow> 200 \<le> status r \<and> status r \<le> 299"

text \<open>\<^verbatim>\<open>response.clone()\<close>: a copy with the same status, headers and body.\<close>

definition clone :: "response \<Rightarrow> response" where
  "clone r = r"

text \<open>The rejection of a promise of the host (a failed \<^verbatim>\<open>fetch\<close> rejects with a TypeError).\<close>

datatype error = TypeError

text \<open>
  The argument of \<^verbatim>\<open>caches.match\<close> is a request object or a URL string
  (\<^verbatim>\<open>caches.match(request)\<close>, \<^verbatim>\<open>caches.match(OFFLINE_URL)\<close>).
\<close>

datatype request_info = ReqObj request | ReqUrl string

text \<open>
  A cache namespace maps a request descriptor to the stored response. The descriptor is the
  absolute URL of the request. The cache storage lists its namespaces in creation order:
  \<^verbatim>\<open>caches.keys()\<close> and \<^verbatim>\<open>caches.match\<close> follow that order.
\<close>

type_synonym cache = "string \<rightharpoonup> response"

type_synonym cache_storage = "(string \<times> cache) list"

text \<open>The calls a handler makes to its host, in the order it makes them.\<close>

datatype event =
    Fetch request
  | CachesOpen string
  | CachesMatch request_info
  | CachesKeys
  | CachesDelete string
  | CacheMatch string request
  | CachePut string request response
  | CacheAddAll string "string list"
  | ClientsClaim
  | SkipWaiting
  | ConsoleError string

record sw_state =
  caches :: cache_storage
  trace :: "event list"

text \<open>
  The surroundings of the worker: \<^verbatim>\<open>location.origin\<close>, the origin that the host's URL
  parser gives for a URL (\<^verbatim>\<open>new URL(u).origin\<close>), and the network. The network answers
  the \<open>n\<close>-th fetch of a handler run (counted from 0) with a response, or with \<open>None\<close> when
  the fetch fails.
\<close>

record env =
  location_origin :: string
  url_origin :: "string \<Rightarrow> string"
  network :: "nat \<Rightarrow> request \<Rightarrow> response option"

subsection \<open>Constants of the worker\<close>

definition CACHE_NAME :: string where
  "CACHE_NAME = ''cafe-serenity-v1.0.0''"

definition OFFLINE_URL :: string where
  "OFFLINE_URL = ''/offline.html''"

definition STATIC_CACHE_URLS :: "string list" where
  "STATIC_CACHE_URLS =
    [''/'',
     ''/index.html'',
     ''/css/critical.css'',
     ''/css/main.css'',
     ''/js/main.js'',
     ''/manifest.json'',
     ''/offline.html'',
     ''https://fonts.googleapis.com/css2?family=Noto+Sans+JP:wght@300;400;500;700&family=Playfair+Display:wght@400;500;600;700&display=swap'',
     ''/images/icons/favicon.ico'',
     ''/images/icons/favicon-96x96.png'',
     ''/images/icons/apple-touch-icon.png'',
     ''/images/icons/web-app-manifest-192x192.png'',
     ''/images/icons/web-app-manifest-512x512.png'',
     ''/images/hero/hero-main.png'']"

definition IMAGE_CACHE_NAME :: string where
  "IMAGE_CACHE_NAME = ''cafe-serenity-images-v1.0.0''"

subsection \<open>The state of a handler run\<close>

text \<open>
  A handler starts on the cache storage with an empty log; every call to the host appends
  its event. The number of fetches made so far selects the answer of the network.
\<close>

definition log :: "event \<Rightarrow> sw_state \<Rightarrow> sw_state" where
  "log e st = st\<lparr>trace := trace st @ [e]\<rparr>"

definition init :: "cache_storage \<Rightarrow> sw_state" where
  "init cs = \<lparr>caches = cs, trace = []\<rparr>"

fun is_Fetch :: "event \<Rightarrow> bool" where
  "is_Fetch (Fetch _) = True"
| "is_Fetch _ = False"

fun is_CachePut :: "event \<Rightarrow> bool" where
  "is_CachePut (CachePut _ _ _) = True"
| "is_CachePut _ = False"

definition fetch_count :: "event list \<Rightarrow> nat" where
  "fetch_count t = length (filter is_Fetch t)"

subsection \<open>Primitives of the host\<close>

text \<open>
  Modelled from the spec: the primitives of the host that the worker calls (the network
  fetch and the namespaced cache store: open, match, put, add-all, list, delete) are not
  code of the repository. They follow the contract of the specification: opening a
  namespace creates it when absent, \<open>put\<close> overwrites the entry of its descriptor,
  the add-all of a list of URLs is all-or-nothing, and a fetch gives a response or a
  network error. A write that the worker starts without awaiting it is taken as completed.
\<close>

text \<open>\<^verbatim>\<open>s.startsWith(p)\<close> on strings.\<close>

definition startsWith :: "string \<Rightarrow> string \<Rightarrow> bool" where
  "startsWith s p \<longleftrightarrow> take (length p) s = p"

text \<open>A URL string of the worker's code, resolved against the worker's location.\<close>

definition resolve :: "env \<Rightarrow> string \<Rightarrow> string" where
  "resolve env s = (if startsWith s ''/'' then location_origin env @ s else s)"

text \<open>\<^verbatim>\<open>new Request(u)\<close>: mode and destination take their defaults.\<close>

definition Request :: "env \<Rightarrow> string \<Rightarrow> request" where
  "Request env s = \<lparr>url = resolve env s, mode = ''cors'', destination = ''''\<rparr>"

definition key_of :: "env \<Rightarrow> request_info \<Rightarrow> string" where
  "key_of env info = (case info of ReqObj r \<Rightarrow> url r | ReqUrl s \<Rightarrow> resolve env s)"

definition fetch :: "env \<Rightarrow> request \<Rightarrow> sw_state \<Rightarrow> (error + response) \<times> sw_state" where
  "fetch env req st =
     ((case network env (fetch_count (trace st)) req of
         None \<Rightarrow> Inl TypeError
       | Some r \<Rightarrow> Inr r),
      log (Fetch req) st)"

definition caches_open :: "string \<Rightarrow> sw_state \<Rightarrow> sw_state" where
  "caches_open name st =
     log (CachesOpen name)
       (st\<lparr>caches := (case map_of (caches st) name of
                         Some c \<Rightarrow> caches st
                       | None \<Rightarrow> caches st @ [(name, Map.empty)])\<rparr>)"

definition cache_match :: "string \<Rightarrow> request \<Rightarrow> sw_state \<Rightarrow> response option \<times> sw_state" where
  "cache_match name req st =
     ((case map_of (caches st) name of
         None \<Rightarrow> None
       | Some c \<Rightarrow> c (url req)),
      log (CacheMatch name req) st)"

definition store :: "string \<Rightarrow> string \<Rightarrow> response \<Rightarrow> cache_storage \<Rightarrow> cache_storage" where
  "store name key resp cs =
     map (\<lambda>(n, c). if n = name then (n, c(key \<mapsto> resp)) else (n, c)) cs"

definition cache_put :: "string \<Rightarrow> request \<Rightarrow> response \<Rightarrow> sw_state \<Rightarrow> sw_state" where
  "cache_put name req resp st =
     log (CachePut name req resp) (st\<lparr>caches := store name (url req) resp (caches st)\<rparr>)"

text \<open>\<^verbatim>\<open>caches.match\<close>: the first namespace, in creation order, that holds the key.\<close>

fun storage_match :: "string \<Rightarrow> cache_storage \<Rightarrow> response option" where
  "storage_match key [] = None"
| "storage_match key ((n, c) # rest) =
     (case c key of Some r \<Rightarrow> Some r | None \<Rightarrow> storage_match key rest)"

definition caches_match :: "env \<Rightarrow> request_info \<Rightarrow> sw_state \<Rightarrow> response option \<times> sw_state" where
  "caches_match env info st =
     (storage_match (key_of env info) (caches st), log (CachesMatch info) st)"

subsection \<open>Synthesized responses\<close>

text \<open>
  \<^verbatim>\<open>new Response(body, {status, statusText, headers})\<close>; status 200 and an empty status
  text when the options leave them out. The bodies are the UTF-8 bytes of the string
  literals of the source, whose captions are Japanese.
\<close>

definition offline_text :: string where
  "offline_text =
     [CHR 0xE3, CHR 0x82, CHR 0xAA, CHR 0xE3, CHR 0x83, CHR 0x95, CHR 0xE3, CHR 0x83, CHR 0xA9,
      CHR 0xE3, CHR 0x82, CHR 0xA4, CHR 0xE3, CHR 0x83, CHR 0xB3, CHR 0xE3, CHR 0x81, CHR 0xA7,
      CHR 0xE3, CHR 0x81, CHR 0x99]"

definition offline_unavailable :: response where
  "offline_unavailable =
     \<lparr>status = 503, statusText = ''Service Unavailable'',
      headers = [(''Content-Type'', ''text/plain; charset=utf-8'')],
      body = offline_text\<rparr>"

definition resource_text :: string where
  "resource_text =
     [CHR 0xE3, CHR 0x83, CHR 0xAA, CHR 0xE3, CHR 0x82, CHR 0xBD, CHR 0xE3, CHR 0x83, CHR 0xBC,
      CHR 0xE3, CHR 0x82, CHR 0xB9, CHR 0xE3, CHR 0x82, CHR 0x92, CHR 0xE5, CHR 0x8F, CHR 0x96,
      CHR 0xE5, CHR 0xBE, CHR 0x97, CHR 0xE3, CHR 0x81, CHR 0xA7, CHR 0xE3, CHR 0x81, CHR 0x8D,
      CHR 0xE3, CHR 0x81, CHR 0xBE, CHR 0xE3, CHR 0x81, CHR 0x9B, CHR 0xE3, CHR 0x82, CHR 0x93]"

definition resource_unavailable :: response where
  "resource_unavailable =
     \<lparr>status = 503, statusText = ''Service Unavailable'',
      headers = [(''Content-Type'', ''text/plain; charset=utf-8'')],
      body = resource_text\<rparr>"

definition placeholder_svg :: string where
  "placeholder_svg =
     ''<svg width=\"400\" height=\"300\" xmlns=\"http://www.w3.org/2000/svg\">'' @ [CHR 0x0A] @
     ''                            <rect width=\"100%\" height=\"100%\" fill=\"#e7e5e4\"/>'' @ [CHR 0x0A] @
     ''                            <text x=\"50%\" y=\"50%\" font-family=\"sans-serif\" font-size=\"18\" fill=\"#78716c\" text-anchor=\"middle\" dy=\"0.3em\">'' @
     [CHR 0xE7, CHR 0x94, CHR 0xBB, CHR 0xE5, CHR 0x83, CHR 0x8F, CHR 0xE3, CHR 0x82, CHR 0x92,
      CHR 0xE8, CHR 0xAA, CHR 0xAD, CHR 0xE3, CHR 0x81, CHR 0xBF, CHR 0xE8, CHR 0xBE, CHR 0xBC,
      CHR 0xE3, CHR 0x82, CHR 0x81, CHR 0xE3, CHR 0x81, CHR 0xBE, CHR 0xE3, CHR 0x81, CHR 0x9B,
      CHR 0xE3, CHR 0x82, CHR 0x93] @
     ''</text>'' @ [CHR 0x0A] @
     ''                        </svg>''"

definition placeholder_image :: response where
  "placeholder_image =
     \<lparr>status = 200, statusText = '''',
      headers = [(''Content-Type'', ''image/svg+xml''), (''Cache-Control'', ''no-store'')],
      body = placeholder_svg\<rparr>"

subsection \<open>The fetch handler\<close>

text \<open>
  What the handler leaves to its caller: it returns without \<^verbatim>\<open>event.respondWith\<close>
  (the request is not intercepted), or it responds with a promise, which resolves to a
  response or rejects.
\<close>

datatype outcome = NotIntercepted | RespondWith "error + response"

text \<open>Navigation requests: network first, then any cache, then the offline page.\<close>

definition respond_navigate :: "env \<Rightarrow> request \<Rightarrow> sw_state \<Rightarrow> (error + response) \<times> sw_state" where
  "respond_navigate env request st =
     (case fetch env request st of
        (Inr networkResponse, st1) \<Rightarrow>
          if ok networkResponse
          then (Inr networkResponse,
                cache_put CACHE_NAME request (clone networkResponse) (caches_open CACHE_NAME st1))
          else (Inr networkResponse, st1)
      | (Inl error, st1) \<Rightarrow>
          (case caches_match env (ReqObj request) st1 of
             (Some cachedResponse, st2) \<Rightarrow> (Inr cachedResponse, st2)
           | (None, st2) \<Rightarrow>
               (case caches_match env (ReqUrl OFFLINE_URL) st2 of
                  (Some offlineResponse, st3) \<Rightarrow> (Inr offlineResponse, st3)
                | (None, st3) \<Rightarrow> (Inr offline_unavailable, st3))))"

text \<open>Image requests: the image namespace first, then the network, then the placeholder.\<close>

definition respond_image :: "env \<Rightarrow> request \<Rightarrow> sw_state \<Rightarrow> (error + response) \<times> sw_state" where
  "respond_image env request st =
     (case cache_match IMAGE_CACHE_NAME request (caches_open IMAGE_CACHE_NAME st) of
        (Some cachedResponse, st1) \<Rightarrow> (Inr cachedResponse, st1)
      | (None, st1) \<Rightarrow>
          (case fetch env request st1 of
             (Inr networkResponse, st2) \<Rightarrow>
               if ok networkResponse
               then (Inr networkResponse,
                     cache_put IMAGE_CACHE_NAME request (clone networkResponse) st2)
               else (Inr networkResponse, st2)
           | (Inl error, st2) \<Rightarrow> (Inr placeholder_image, st2)))"

text \<open>Every other request: any cache first, then the network, then an error response.\<close>

definition respond_other :: "env \<Rightarrow> request \<Rightarrow> sw_state \<Rightarrow> (error + response) \<times> sw_state" where
  "respond_other env request st =
     (case caches_match env (ReqObj request) st of
        (Some cachedResponse, st1) \<Rightarrow> (Inr cachedResponse, st1)
      | (None, st1) \<Rightarrow>
          (case fetch env request st1 of
             (Inr networkResponse, st2) \<Rightarrow>
               if ok networkResponse
               then (Inr networkResponse,
                     cache_put CACHE_NAME request (clone networkResponse) (caches_open CACHE_NAME st2))
               else (Inr networkResponse, st2)
           | (Inl error, st2) \<Rightarrow>
               (Inr resource_unavailable, log (ConsoleError ''Fetch failed:'') st2)))"

definition respondWith :: "(error + response) \<times> sw_state \<Rightarrow> outcome \<times> sw_state" where
  "respondWith p = (RespondWith (fst p), snd p)"

definition fetch_handler :: "env \<Rightarrow> request \<Rightarrow> cache_storage \<Rightarrow> outcome \<times> sw_state" where
  "fetch_handler env request cs =
     (if url_origin env (url request) \<noteq> location_origin env then (NotIntercepted, init cs)
      else if mode request = ''navigate'' then respondWith (respond_navigate env request (init cs))
      else if destination request = ''image'' then respondWith (respond_image env request (init cs))
      else respondWith (respond_other env request (init cs)))"

subsection \<open>The install handler\<close>

text \<open>
  \<^verbatim>\<open>cache.addAll(urls)\<close> fetches a request for every URL, in the order of the list, and
  writes the responses only when every fetch has given one.
\<close>

fun fetch_all :: "env \<Rightarrow> request list \<Rightarrow> sw_state \<Rightarrow> (error + response) list \<times> sw_state" where
  "fetch_all env [] st = ([], st)"
| "fetch_all env (q # qs) st =
     (case fetch env q st of
        (x, st1) \<Rightarrow> (case fetch_all env qs st1 of (xs, st2) \<Rightarrow> (x # xs, st2)))"

fun collect :: "(error + response) list \<Rightarrow> error + response list" where
  "collect [] = Inr []"
| "collect (Inl e # xs) = Inl e"
| "collect (Inr r # xs) = (case collect xs of Inl e \<Rightarrow> Inl e | Inr rs \<Rightarrow> Inr (r # rs))"

fun store_all :: "string \<Rightarrow> (request \<times> response) list \<Rightarrow> cache_storage \<Rightarrow> cache_storage" where
  "store_all name [] cs = cs"
| "store_all name ((q, r) # ps) cs = store_all name ps (store name (url q) r cs)"

definition cache_addAll :: "env \<Rightarrow> string \<Rightarrow> string list \<Rightarrow> sw_state \<Rightarrow> (error + unit) \<times> sw_state" where
  "cache_addAll env name urls st =
     (case fetch_all env (map (Request env) urls) (log (CacheAddAll name urls) st) of
        (results, st1) \<Rightarrow>
          (case collect results of
             Inl e \<Rightarrow> (Inl e, st1)
           | Inr responses \<Rightarrow>
               (Inr (),
                st1\<lparr>caches := store_all name (zip (map (Request env) urls) responses) (caches st1)\<rparr>)))"

text \<open>
  The handler passes one promise to \<^verbatim>\<open>event.waitUntil\<close>: the result \<open>Inl\<close> is its
  rejection, with which the installation fails. \<^verbatim>\<open>self.skipWaiting()\<close> is called while
  that promise waits for the namespace to open. The manifest is a parameter; the worker
  installs \<open>STATIC_CACHE_URLS\<close>.
\<close>

definition install_with :: "string list \<Rightarrow> env \<Rightarrow> cache_storage \<Rightarrow> (error + unit) \<times> sw_state" where
  "install_with manifest env cs =
     (case cache_addAll env CACHE_NAME manifest
             (log SkipWaiting (caches_open CACHE_NAME (init cs))) of
        (Inl e, st2) \<Rightarrow> (Inl e, st2)
      | (Inr u, st2) \<Rightarrow>
          (case fetch env (Request env OFFLINE_URL) st2 of
             (Inr offlineResponse, st3) \<Rightarrow>
               (Inr (), cache_put CACHE_NAME (Request env OFFLINE_URL) offlineResponse st3)
           | (Inl error, st3) \<Rightarrow>
               (Inr (), log (ConsoleError ''Failed to cache offline page:'') st3)))"

definition install :: "env \<Rightarrow> cache_storage \<Rightarrow> (error + unit) \<times> sw_state" where
  "install = install_with STATIC_CACHE_URLS"

subsection \<open>The activate handler\<close>

definition caches_keys :: "sw_state \<Rightarrow> string list \<times> sw_state" where
  "caches_keys st = (map fst (caches st), log CachesKeys st)"

definition caches_delete :: "string \<Rightarrow> sw_state \<Rightarrow> sw_state" where
  "caches_delete name st =
     log (CachesDelete name) (st\<lparr>caches := filter (\<lambda>p. fst p \<noteq> name) (caches st)\<rparr>)"

text \<open>
  The three string literals of the handler are parameters: the prefix of the site's
  namespace names and the two current names. The worker runs it with its own constants.
\<close>

definition activate_with :: "string \<Rightarrow> string \<Rightarrow> string \<Rightarrow> cache_storage \<Rightarrow> sw_state" where
  "activate_with pre current images cs =
     (case caches_keys (init cs) of
        (cacheNames, st1) \<Rightarrow>
          log ClientsClaim
            (fold caches_delete
               (filter (\<lambda>name. startsWith name pre \<and> name \<noteq> current \<and> name \<noteq> images) cacheNames)
               st1))"

definition activate :: "cache_storage \<Rightarrow> sw_state" where
  "activate = activate_with ''cafe-serenity-'' CACHE_NAME IMAGE_CACHE_NAME"

subsection \<open>Reading the state\<close>

text \<open>The entry of a key in a namespace; \<open>None\<close> when the namespace or the entry is absent.\<close>

definition entry :: "string \<Rightarrow> string \<Rightarrow> cache_storage \<Rightarrow> response option" where
  "entry name key cs = (case map_of cs name of None \<Rightarrow> None | Some c \<Rightarrow> c key)"

text \<open>The names that a handler run asked the host to delete.\<close>

fun deleted :: "event list \<Rightarrow> string list" where
  "deleted [] = []"
| "deleted (CachesDelete name # t) = name # deleted t"
| "deleted (e # t) = deleted t"

subsection \<open>A concrete environment\<close>

text \<open>
  For evaluating the handlers on concrete requests: a site, a URL parser that cuts a URL
  before its third slash, and some responses.
\<close>

definition site :: string where
  "site = ''https://cafe.example''"

fun origin_part :: "nat \<Rightarrow> string \<Rightarrow> string" where
  "origin_part n [] = []"
| "origin_part n (c # cs) =
     (if c = CHR ''/'' then (if n = 0 then [] else c # origin_part (n - 1) cs)
      else c # origin_part n cs)"

definition sample_env :: "(nat \<Rightarrow> request \<Rightarrow> response option) \<Rightarrow> env" where
  "sample_env net = \<lparr>location_origin = site, url_origin = origin_part 2, network = net\<rparr>"

definition page :: "string \<Rightarrow> response" where
  "page b = \<lparr>status = 200, statusText = ''OK'', headers = [], body = b\<rparr>"

definition not_found :: response where
  "not_found = \<lparr>status = 404, statusText = ''Not Found'', headers = [], body = ''''\<rparr>"

definition online :: "response \<Rightarrow> nat \<Rightarrow> request \<Rightarrow> response option" where
  "online r n q = Some r"

definition offline :: "nat \<Rightarrow> request \<Rightarrow> response option" where
  "offline n q = None"

definition fails_at :: "nat \<Rightarrow> nat \<Rightarrow> request \<Rightarrow> response option" where
  "fails_at k n q = (if n = k then None else Some (page ''asset''))"

definition menu_request :: request where
  "menu_request =
     \<lparr>url = ''https://cafe.example/menu.html'', mode = ''navigate'', destination = ''document''\<rparr>"

definition logo_request :: request where
  "logo_request =
     \<lparr>url = ''https://cafe.example/images/logo.png'', mode = ''no-cors'', destination = ''image''\<rparr>"

definition logo_script_request :: request where
  "logo_script_request =
     \<lparr>url = ''https://cafe.example/images/logo.png'', mode = ''cors'', destination = ''''\<rparr>"

definition style_request :: request where
  "style_request =
     \<lparr>url = ''https://cafe.example/css/extra.css'', mode = ''no-cors'', destination = ''style''\<rparr>"

definition font_request :: request where
  "font_request =
     \<lparr>url = ''https://fonts.googleapis.com/css2'', mode = ''no-cors'', destination = ''style''\<rparr>"

definition manifest5 :: "string list" where
  "manifest5 = [''/'', ''/index.html'', ''/css/main.css'', ''/js/main.js'', ''/offline.html'']"

section \<open>Properties\<close>

subsection \<open>Auxiliary facts\<close>

lemmas handler_defs =
  fetch_handler_def respondWith_def respond_navigate_def respond_image_def respond_other_def
  fetch_def init_def fetch_count_def clone_def caches_match_def cache_match_def key_of_def
  cache_put_def caches_open_def log_def

lemmas sample_defs =
  sample_env_def site_def online_def offline_def fails_at_def page_def not_found_def
  menu_request_def logo_request_def logo_script_request_def style_request_def font_request_def
  manifest5_def

lemma map_of_store:
  "map_of (store name key resp cs) n =
     (case map_of cs n of None \<Rightarrow> None
      | Some c \<Rightarrow> Some (if n = name then c(key \<mapsto> resp) else c))"
  by (induction cs) (auto simp: store_def split: option.splits)

lemma entry_store:
  "entry n k (store name key resp cs) =
     (if n = name \<and> k = key \<and> map_of cs name \<noteq> None then Some resp else entry n k cs)"
  by (auto simp: entry_def map_of_store split: option.splits)

lemma entry_append_empty:
  "entry n k (cs @ [(name, Map.empty)]) = entry n k cs"
  by (auto simp: entry_def map_add_def split: option.splits)

lemma storage_match_in:
  "storage_match key cs = Some r \<Longrightarrow> \<exists>p \<in> set cs. snd p key = Some r"
  by (induction cs) (fastforce split: option.splits)+

lemma storage_match_None_iff:
  "storage_match key cs = None \<longleftrightarrow> (\<forall>p \<in> set cs. snd p key = None)"
  by (induction cs) (auto split: option.splits)

lemma entry_in:
  "entry name key cs = Some r \<Longrightarrow> \<exists>p \<in> set cs. snd p key = Some r"
proof -
  assume "entry name key cs = Some r"
  then obtain c where c: "map_of cs name = Some c" "c key = Some r"
    by (auto simp: entry_def split: option.splits)
  from c(1) have "(name, c) \<in> set cs" by (rule map_of_SomeD)
  with c(2) show ?thesis by force
qed

lemma fold_delete_caches:
  "caches (fold caches_delete ns st) = filter (\<lambda>p. fst p \<notin> set ns) (caches st)"
  by (induction ns arbitrary: st) (auto simp: caches_delete_def log_def intro: filter_cong)

lemma fold_delete_trace:
  "trace (fold caches_delete ns st) = trace st @ map CachesDelete ns"
  by (induction ns arbitrary: st) (auto simp: caches_delete_def log_def)

lemma deleted_append: "deleted (t @ u) = deleted t @ deleted u"
  by (induction t rule: deleted.induct) auto

lemma deleted_map: "deleted (map CachesDelete ns) = ns"
  by (induction ns) auto

lemma activate_with_caches:
  "caches (activate_with pre current images cs) =
     filter (\<lambda>p. \<not> (startsWith (fst p) pre \<and> fst p \<noteq> current \<and> fst p \<noteq> images)) cs"
  by (auto simp: activate_with_def caches_keys_def init_def log_def fold_delete_caches
      intro!: filter_cong)

lemma activate_with_deleted:
  "deleted (trace (activate_with pre current images cs)) =
     filter (\<lambda>name. startsWith name pre \<and> name \<noteq> current \<and> name \<noteq> images) (map fst cs)"
  by (simp add: activate_with_def caches_keys_def init_def log_def fold_delete_trace
      deleted_append deleted_map)

lemma fetch_all_caches: "caches (snd (fetch_all env qs st)) = caches st"
  by (induction qs arbitrary: st) (simp_all add: case_prod_beta fetch_def log_def)

lemma fetch_all_puts:
  "filter is_CachePut (trace (snd (fetch_all env qs st))) = filter is_CachePut (trace st)"
  by (induction qs arbitrary: st) (simp_all add: case_prod_beta fetch_def log_def)

lemma fetch_all_length: "length (fst (fetch_all env qs st)) = length qs"
  by (induction qs arbitrary: st) (simp_all add: case_prod_beta)

text \<open>The \<open>i\<close>-th request of an add-all gets the answer of the network to its \<open>i\<close>-th fetch.\<close>

lemma fetch_all_nth:
  "i < length qs \<Longrightarrow>
   fst (fetch_all env qs st) ! i =
     (case network env (fetch_count (trace st) + i) (qs ! i) of
        None \<Rightarrow> Inl TypeError | Some r \<Rightarrow> Inr r)"
proof (induction qs arbitrary: st i)
  case Nil
  then show ?case by simp
next
  case (Cons q qs)
  show ?case
  proof (cases i)
    case 0
    then show ?thesis by (simp add: fetch_def case_prod_beta)
  next
    case (Suc j)
    with Cons.prems have j: "j < length qs" by simp
    have "fetch_count (trace (snd (fetch env q st))) = Suc (fetch_count (trace st))"
      by (simp add: fetch_def log_def fetch_count_def)
    with Cons.IH [OF j, of "snd (fetch env q st)"] Suc show ?thesis
      by (simp add: case_prod_beta)
  qed
qed

lemma collect_Inl:
  "i < length xs \<Longrightarrow> xs ! i = Inl e \<Longrightarrow> collect xs = Inl TypeError"
proof (induction xs arbitrary: i rule: collect.induct)
  case 1
  then show ?case by simp
next
  case (2 e' xs)
  then show ?case by (cases e') simp
next
  case (3 r xs)
  then show ?case by (cases i) (auto split: sum.splits)
qed

lemma addAll_fails:
  assumes "i < length urls"
      and "network env (fetch_count (trace st) + i) (Request env (urls ! i)) = None"
  shows "fst (cache_addAll env name urls st) = Inl TypeError"
    and "caches (snd (cache_addAll env name urls st)) = caches st"
    and "filter is_CachePut (trace (snd (cache_addAll env name urls st))) =
         filter is_CachePut (trace st)"
proof -
  let ?st = "log (CacheAddAll name urls) st"
  let ?qs = "map (Request env) urls"
  have cnt: "fetch_count (trace ?st) = fetch_count (trace st)"
    by (simp add: log_def fetch_count_def)
  have i: "i < length ?qs" using assms(1) by simp
  have "fst (fetch_all env ?qs ?st) ! i = Inl TypeError"
    using fetch_all_nth [OF i, of env ?st] assms by (simp add: cnt)
  moreover have "i < length (fst (fetch_all env ?qs ?st))"
    using i by (simp add: fetch_all_length)
  ultimately have c: "collect (fst (fetch_all env ?qs ?st)) = Inl TypeError"
    by (rule collect_Inl [rotated])
  show "fst (cache_addAll env name urls st) = Inl TypeError"
    using c by (simp add: cache_addAll_def case_prod_beta)
  show "caches (snd (cache_addAll env name urls st)) = caches st"
    using c fetch_all_caches [of env ?qs ?st]
    by (simp add: cache_addAll_def log_def case_prod_beta)
  show "filter is_CachePut (trace (snd (cache_addAll env name urls st))) =
        filter is_CachePut (trace st)"
    using c fetch_all_puts [of env ?qs ?st]
    by (simp add: cache_addAll_def log_def case_prod_beta)
qed

lemma install_with_fails:
  assumes "i < length manifest"
      and "network env i (Request env (manifest ! i)) = None"
  shows "fst (install_with manifest env cs) = Inl TypeError \<and>
         filter is_CachePut (trace (snd (install_with manifest env cs))) = [] \<and>
         (\<forall>name key. entry name key (caches (snd (install_with manifest env cs))) =
                      entry name key cs)"
proof -
  let ?st = "log SkipWaiting (caches_open CACHE_NAME (init cs))"
  have cnt: "fetch_count (trace ?st) = 0"
    by (simp add: log_def caches_open_def init_def fetch_count_def)
  have n: "network env (fetch_count (trace ?st) + i) (Request env (manifest ! i)) = None"
    using assms(2) by (simp add: cnt)
  note f = addAll_fails [OF assms(1) n, of CACHE_NAME]
  have "caches ?st = cs \<or> caches ?st = cs @ [(CACHE_NAME, Map.empty)]"
    by (simp add: log_def caches_open_def init_def split: option.splits)
  then have e: "\<forall>name key. entry name key (caches ?st) = entry name key cs"
    by (auto simp: entry_append_empty)
  have p: "filter is_CachePut (trace ?st) = []"
    by (simp add: log_def caches_open_def init_def)
  show ?thesis using f e p
    by (auto simp: install_with_def split: prod.splits sum.splits)
qed

subsection \<open>Navigation requests\<close>

text \<open>
  C1, as the code has it. For a same-origin navigation request whose network fetch gives a
  response, the handler responds with exactly that response. When the response is ok
  (status 200 to 299), the static namespace afterwards holds that response under the URL
  of the request; when it is not ok, the cache storage is left as it was.
\<close>

theorem navigate_network_success:
  assumes "url_origin env (url request) = location_origin env"
      and "mode request = ''navigate''"
      and "network env 0 request = Some r"
  shows "fst (fetch_handler env request cs) = RespondWith (Inr r) \<and>
         (ok r \<longrightarrow>
            entry CACHE_NAME (url request) (caches (snd (fetch_handler env request cs))) = Some r) \<and>
         (\<not> ok r \<longrightarrow> caches (snd (fetch_handler env request cs)) = cs)"
  using assms
  by (simp add: handler_defs entry_store entry_append_empty map_add_def split: option.splits)

theorem navigate_network_success_witness:
  "url_origin (sample_env (online (page ''menu''))) (url menu_request) =
     location_origin (sample_env (online (page ''menu''))) \<and>
   mode menu_request = ''navigate'' \<and>
   network (sample_env (online (page ''menu''))) 0 menu_request = Some (page ''menu'') \<and>
   ok (page ''menu'') \<and>
   fst (fetch_handler (sample_env (online (page ''menu''))) menu_request []) =
     RespondWith (Inr (page ''menu'')) \<and>
   entry CACHE_NAME (url menu_request)
     (caches (snd (fetch_handler (sample_env (online (page ''menu''))) menu_request []))) =
     Some (page ''menu'')"
proof -
  let ?E = "sample_env (online (page ''menu''))"
  have h1: "url_origin ?E (url menu_request) = location_origin ?E"
    by (simp add: sample_defs)
  have h2: "mode menu_request = ''navigate''"
    by (simp add: sample_defs)
  have h3: "network ?E 0 menu_request = Some (page ''menu'')"
    by (simp add: sample_defs)
  have h4: "ok (page ''menu'')"
    by (simp add: ok_def page_def)
  show ?thesis
    using navigate_network_success [OF h1 h2 h3, of "[]"] h1 h2 h3 h4 by simp
qed

text \<open>
  C1 as stated fails: the network answers a navigation with status 404, the fetch has
  succeeded and the handler responds with that answer, yet the static namespace holds no
  entry for the request afterwards.
\<close>

theorem navigate_not_ok_not_stored:
  "url_origin (sample_env (online not_found)) (url menu_request) =
     location_origin (sample_env (online not_found)) \<and>
   mode menu_request = ''navigate'' \<and>
   network (sample_env (online not_found)) 0 menu_request = Some not_found \<and>
   fst (fetch_handler (sample_env (online not_found)) menu_request []) =
     RespondWith (Inr not_found) \<and>
   entry CACHE_NAME (url menu_request)
     (caches (snd (fetch_handler (sample_env (online not_found)) menu_request []))) = None"
  by (simp add: handler_defs sample_defs ok_def entry_def)

text \<open>
  C6. For a same-origin navigation request whose network fetch fails, when some namespace
  holds an entry for the URL of the request, the handler responds with such an entry: the
  one that \<^verbatim>\<open>caches.match(request)\<close> finds, which is the entry of the first namespace,
  in creation order, that holds one. The handler has then made two calls, the fetch and that
  lookup: the offline page is not looked up. The cache storage is unchanged.
\<close>

theorem navigate_offline_cached:
  assumes "url_origin env (url request) = location_origin env"
      and "mode request = ''navigate''"
      and "network env 0 request = None"
      and "(name, c) \<in> set cs"
      and "c (url request) = Some r0"
  shows "(\<exists>r. fst (fetch_handler env request cs) = RespondWith (Inr r) \<and>
              storage_match (url request) cs = Some r \<and>
              (\<exists>p \<in> set cs. snd p (url request) = Some r)) \<and>
         trace (snd (fetch_handler env request cs)) =
           [Fetch request, CachesMatch (ReqObj request)] \<and>
         CachesMatch (ReqUrl OFFLINE_URL) \<notin> set (trace (snd (fetch_handler env request cs))) \<and>
         caches (snd (fetch_handler env request cs)) = cs"
proof -
  have "storage_match (url request) cs \<noteq> None"
  proof
    assume "storage_match (url request) cs = None"
    then have "\<forall>p \<in> set cs. snd p (url request) = None"
      by (simp add: storage_match_None_iff)
    with assms(4) have "snd (name, c) (url request) = None"
      by blast
    with assms(5) show False
      by simp
  qed
  then obtain r where r: "storage_match (url request) cs = Some r"
    by blast
  from r have "\<exists>p \<in> set cs. snd p (url request) = Some r"
    by (rule storage_match_in)
  with r assms(1-3) show ?thesis
    by (simp add: handler_defs)
qed

theorem navigate_offline_cached_witness:
  "url_origin (sample_env offline) (url menu_request) = location_origin (sample_env offline) \<and>
   mode menu_request = ''navigate'' \<and>
   network (sample_env offline) 0 menu_request = None \<and>
   (CACHE_NAME, [url menu_request \<mapsto> page ''menu'',
                 ''https://cafe.example/offline.html'' \<mapsto> page ''offline'']) \<in>
     set [(CACHE_NAME, [url menu_request \<mapsto> page ''menu'',
                        ''https://cafe.example/offline.html'' \<mapsto> page ''offline''])] \<and>
   [url menu_request \<mapsto> page ''menu'',
    ''https://cafe.example/offline.html'' \<mapsto> page ''offline''] (url menu_request) =
     Some (page ''menu'') \<and>
   fst (fetch_handler (sample_env offline) menu_request
     [(CACHE_NAME, [url menu_request \<mapsto> page ''menu'',
                    ''https://cafe.example/offline.html'' \<mapsto> page ''offline''])]) =
     RespondWith (Inr (page ''menu'')) \<and>
   trace (snd (fetch_handler (sample_env offline) menu_request
     [(CACHE_NAME, [url menu_request \<mapsto> page ''menu'',
                    ''https://cafe.example/offline.html'' \<mapsto> page ''offline''])])) =
     [Fetch menu_request, CachesMatch (ReqObj menu_request)]"
proof -
  let ?E = "sample_env offline"
  let ?c = "[url menu_request \<mapsto> page ''menu'',
             ''https://cafe.example/offline.html'' \<mapsto> page ''offline'']"
  let ?cs = "[(CACHE_NAME, ?c)]"
  have h1: "url_origin ?E (url menu_request) = location_origin ?E"
    by (simp add: sample_defs)
  have h2: "mode menu_request = ''navigate''"
    by (simp add: sample_defs)
  have h3: "network ?E 0 menu_request = None"
    by (simp add: sample_defs)
  have h4: "(CACHE_NAME, ?c) \<in> set ?cs"
    by simp
  have h5: "?c (url menu_request) = Some (page ''menu'')"
    by (simp add: sample_defs)
  have h6: "storage_match (url menu_request) ?cs = Some (page ''menu'')"
    by (simp add: sample_defs)
  show ?thesis
    using navigate_offline_cached [OF h1 h2 h3 h4 h5] h1 h2 h3 h4 h5 h6 by simp
qed

text \<open>
  C7. For a same-origin navigation request whose network fetch fails and for whose URL no
  namespace holds an entry, the handler responds with the stored offline page when
  \<^verbatim>\<open>caches.match(OFFLINE_URL)\<close> finds it, and otherwise with a synthesized plain-text
  response of status 503.
\<close>

theorem navigate_offline_fallback:
  assumes "url_origin env (url request) = location_origin env"
      and "mode request = ''navigate''"
      and "network env 0 request = None"
      and "\<forall>p \<in> set cs. snd p (url request) = None"
  shows "(storage_match (resolve env OFFLINE_URL) cs = Some r \<longrightarrow>
            fst (fetch_handler env request cs) = RespondWith (Inr r)) \<and>
         (storage_match (resolve env OFFLINE_URL) cs = None \<longrightarrow>
            fst (fetch_handler env request cs) = RespondWith (Inr offline_unavailable)) \<and>
         status offline_unavailable = 503 \<and>
         map_of (headers offline_unavailable) ''Content-Type'' = Some ''text/plain; charset=utf-8''"
proof -
  have "storage_match (url request) cs = None"
    using assms(4) by (simp add: storage_match_None_iff)
  with assms(1-3) show ?thesis
    by (simp add: handler_defs offline_unavailable_def)
qed

theorem navigate_offline_fallback_witness:
  "url_origin (sample_env offline) (url menu_request) = location_origin (sample_env offline) \<and>
   mode menu_request = ''navigate'' \<and>
   network (sample_env offline) 0 menu_request = None \<and>
   [''https://cafe.example/offline.html'' \<mapsto> page ''offline''] (url menu_request) = None \<and>
   storage_match (resolve (sample_env offline) OFFLINE_URL)
     [(CACHE_NAME, [''https://cafe.example/offline.html'' \<mapsto> page ''offline''])] =
     Some (page ''offline'') \<and>
   fst (fetch_handler (sample_env offline) menu_request
     [(CACHE_NAME, [''https://cafe.example/offline.html'' \<mapsto> page ''offline''])]) =
     RespondWith (Inr (page ''offline'')) \<and>
   storage_match (resolve (sample_env offline) OFFLINE_URL) [] = None \<and>
   fst (fetch_handler (sample_env offline) menu_request []) =
     RespondWith (Inr offline_unavailable)"
proof -
  let ?E = "sample_env offline"
  let ?cs = "[(CACHE_NAME, [''https://cafe.example/offline.html'' \<mapsto> page ''offline''])]"
  have h1: "url_origin ?E (url menu_request) = location_origin ?E"
    by (simp add: sample_defs)
  have h2: "mode menu_request = ''navigate''"
    by (simp add: sample_defs)
  have h3: "network ?E 0 menu_request = None"
    by (simp add: sample_defs)
  have h4: "\<forall>p \<in> set ?cs. snd p (url menu_request) = None"
    by (simp add: sample_defs)
  have h5: "storage_match (resolve ?E OFFLINE_URL) ?cs = Some (page ''offline'')"
    by (simp add: sample_defs resolve_def OFFLINE_URL_def startsWith_def)
  have h6: "\<forall>p \<in> set ([] :: cache_storage). snd p (url menu_request) = None"
    by simp
  have h7: "storage_match (resolve ?E OFFLINE_URL) [] = None"
    by simp
  show ?thesis
    using navigate_offline_fallback [OF h1 h2 h3 h4, of "page ''offline''"]
      navigate_offline_fallback [OF h1 h2 h3 h6, of "page ''offline''"]
      h1 h2 h3 h4 h5 h7
    by simp
qed

subsection \<open>Image requests\<close>

text \<open>
  C5. A same-origin request that the handler treats as an image request (its destination
  is \<^verbatim>\<open>image\<close> and it is not a navigation): when the image namespace holds an entry for
  its URL, the handler responds with that entry and makes no fetch; when the namespace holds
  none and the fetch fails, the handler responds with the synthesized SVG placeholder,
  whose content type is \<^verbatim>\<open>image/svg+xml\<close>.
\<close>

theorem image_cache_first:
  assumes "url_origin env (url request) = location_origin env"
      and "mode request \<noteq> ''navigate''"
      and "destination request = ''image''"
  shows "(entry IMAGE_CACHE_NAME (url request) cs = Some r \<longrightarrow>
            fst (fetch_handler env request cs) = RespondWith (Inr r) \<and>
            filter is_Fetch (trace (snd (fetch_handler env request cs))) = []) \<and>
         (entry IMAGE_CACHE_NAME (url request) cs = None \<and> network env 0 request = None \<longrightarrow>
            fst (fetch_handler env request cs) = RespondWith (Inr placeholder_image)) \<and>
         map_of (headers placeholder_image) ''Content-Type'' = Some ''image/svg+xml''"
  using assms
  by (auto simp add: handler_defs entry_def placeholder_image_def map_add_def
      split: option.splits)

theorem image_cache_first_witness:
  "url_origin (sample_env offline) (url logo_request) = location_origin (sample_env offline) \<and>
   mode logo_request \<noteq> ''navigate'' \<and>
   destination logo_request = ''image'' \<and>
   entry IMAGE_CACHE_NAME (url logo_request)
     [(IMAGE_CACHE_NAME, [url logo_request \<mapsto> page ''logo''])] = Some (page ''logo'') \<and>
   fst (fetch_handler (sample_env offline) logo_request
     [(IMAGE_CACHE_NAME, [url logo_request \<mapsto> page ''logo''])]) =
     RespondWith (Inr (page ''logo'')) \<and>
   filter is_Fetch (trace (snd (fetch_handler (sample_env offline) logo_request
     [(IMAGE_CACHE_NAME, [url logo_request \<mapsto> page ''logo''])]))) = [] \<and>
   entry IMAGE_CACHE_NAME (url logo_request) [] = None \<and>
   network (sample_env offline) 0 logo_request = None \<and>
   fst (fetch_handler (sample_env offline) logo_request []) = RespondWith (Inr placeholder_image)"
proof -
  let ?E = "sample_env offline"
  let ?cs = "[(IMAGE_CACHE_NAME, [url logo_request \<mapsto> page ''logo''])]"
  have h1: "url_origin ?E (url logo_request) = location_origin ?E"
    by (simp add: sample_defs)
  have h2: "mode logo_request \<noteq> ''navigate''"
    by (simp add: sample_defs)
  have h3: "destination logo_request = ''image''"
    by (simp add: sample_defs)
  have h4: "entry IMAGE_CACHE_NAME (url logo_request) ?cs = Some (page ''logo'')"
    by (simp add: entry_def)
  have h5: "entry IMAGE_CACHE_NAME (url logo_request) [] = None"
    by (simp add: entry_def)
  have h6: "network ?E 0 logo_request = None"
    by (simp add: sample_defs)
  show ?thesis
    using image_cache_first [OF h1 h2 h3, of ?cs "page ''logo''"]
      image_cache_first [OF h1 h2 h3, of "[]" "page ''logo''"]
      h1 h2 h3 h4 h5 h6
    by simp
qed

subsection \<open>Other requests\<close>

text \<open>
  C8, as the code has it. For a same-origin request that is neither a navigation nor an
  image request, the lookup is \<^verbatim>\<open>caches.match(request)\<close>, over every namespace of the
  storage: when it finds an entry, the handler responds with it, without a fetch and
  without a write. When it finds none, the handler fetches: an ok response is stored into
  the static namespace and returned; a response that is not ok is returned and not stored;
  on a network failure the handler responds with a plain-text response of status 503, which
  is not the placeholder image.
\<close>

theorem other_cache_first:
  assumes "url_origin env (url request) = location_origin env"
      and "mode request \<noteq> ''navigate''"
      and "destination request \<noteq> ''image''"
  shows "(storage_match (url request) cs = Some r \<longrightarrow>
            fst (fetch_handler env request cs) = RespondWith (Inr r) \<and>
            filter is_Fetch (trace (snd (fetch_handler env request cs))) = [] \<and>
            caches (snd (fetch_handler env request cs)) = cs) \<and>
         (storage_match (url request) cs = None \<and> network env 0 request = Some r \<and> ok r \<longrightarrow>
            fst (fetch_handler env request cs) = RespondWith (Inr r) \<and>
            entry CACHE_NAME (url request) (caches (snd (fetch_handler env request cs))) = Some r) \<and>
         (storage_match (url request) cs = None \<and> network env 0 request = Some r \<and> \<not> ok r \<longrightarrow>
            fst (fetch_handler env request cs) = RespondWith (Inr r) \<and>
            caches (snd (fetch_handler env request cs)) = cs) \<and>
         (storage_match (url request) cs = None \<and> network env 0 request = None \<longrightarrow>
            fst (fetch_handler env request cs) = RespondWith (Inr resource_unavailable) \<and>
            caches (snd (fetch_handler env request cs)) = cs) \<and>
         status resource_unavailable = 503 \<and>
         map_of (headers resource_unavailable) ''Content-Type'' = Some ''text/plain; charset=utf-8'' \<and>
         resource_unavailable \<noteq> placeholder_image"
  using assms
  by (simp add: handler_defs entry_store entry_append_empty map_add_def
      resource_unavailable_def placeholder_image_def split: option.splits)

theorem other_cache_first_witness:
  "url_origin (sample_env (online (page ''css''))) (url style_request) =
     location_origin (sample_env (online (page ''css''))) \<and>
   mode style_request \<noteq> ''navigate'' \<and>
   destination style_request \<noteq> ''image'' \<and>
   storage_match (url style_request) [] = None \<and>
   network (sample_env (online (page ''css''))) 0 style_request = Some (page ''css'') \<and>
   ok (page ''css'') \<and>
   fst (fetch_handler (sample_env (online (page ''css''))) style_request []) =
     RespondWith (Inr (page ''css'')) \<and>
   entry CACHE_NAME (url style_request)
     (caches (snd (fetch_handler (sample_env (online (page ''css''))) style_request []))) =
     Some (page ''css'') \<and>
   storage_match (url style_request) [(CACHE_NAME, [url style_request \<mapsto> page ''old''])] =
     Some (page ''old'') \<and>
   fst (fetch_handler (sample_env (online (page ''css''))) style_request
     [(CACHE_NAME, [url style_request \<mapsto> page ''old''])]) = RespondWith (Inr (page ''old'')) \<and>
   url_origin (sample_env offline) (url style_request) = location_origin (sample_env offline) \<and>
   network (sample_env offline) 0 style_request = None \<and>
   fst (fetch_handler (sample_env offline) style_request []) =
     RespondWith (Inr resource_unavailable)"
proof -
  let ?E = "sample_env (online (page ''css''))"
  let ?F = "sample_env offline"
  let ?cs = "[(CACHE_NAME, [url style_request \<mapsto> page ''old''])]"
  have h1: "url_origin ?E (url style_request) = location_origin ?E"
    by (simp add: sample_defs)
  have h2: "mode style_request \<noteq> ''navigate''"
    by (simp add: sample_defs)
  have h3: "destination style_request \<noteq> ''image''"
    by (simp add: sample_defs)
  have h4: "storage_match (url style_request) [] = None"
    by simp
  have h5: "network ?E 0 style_request = Some (page ''css'')"
    by (simp add: sample_defs)
  have h6: "ok (page ''css'')"
    by (simp add: ok_def page_def)
  have h7: "storage_match (url style_request) ?cs = Some (page ''old'')"
    by simp
  have h8: "url_origin ?F (url style_request) = location_origin ?F"
    by (simp add: sample_defs)
  have h9: "network ?F 0 style_request = None"
    by (simp add: sample_defs)
  show ?thesis
    using other_cache_first [OF h1 h2 h3, of "[]" "page ''css''"]
      other_cache_first [OF h1 h2 h3, of ?cs "page ''old''"]
      other_cache_first [OF h8 h2 h3, of "[]" "page ''css''"]
      h1 h2 h3 h4 h5 h6 h7 h8 h9
    by simp
qed

text \<open>
  C8 as stated fails twice. A script fetches the URL of an image that the image namespace
  holds and the static namespace does not: the handler answers from the image namespace and
  does not fetch, although the network would answer. And a stylesheet request that the
  network answers with status 404 is returned and not stored.
\<close>

theorem other_lookup_not_scoped:
  "url_origin (sample_env (online (page ''fresh''))) (url logo_script_request) =
     location_origin (sample_env (online (page ''fresh''))) \<and>
   mode logo_script_request \<noteq> ''navigate'' \<and>
   destination logo_script_request \<noteq> ''image'' \<and>
   entry CACHE_NAME (url logo_script_request)
     [(CACHE_NAME, Map.empty), (IMAGE_CACHE_NAME, [url logo_request \<mapsto> page ''logo''])] = None \<and>
   network (sample_env (online (page ''fresh''))) 0 logo_script_request = Some (page ''fresh'') \<and>
   fst (fetch_handler (sample_env (online (page ''fresh''))) logo_script_request
     [(CACHE_NAME, Map.empty), (IMAGE_CACHE_NAME, [url logo_request \<mapsto> page ''logo''])]) =
     RespondWith (Inr (page ''logo'')) \<and>
   trace (snd (fetch_handler (sample_env (online (page ''fresh''))) logo_script_request
     [(CACHE_NAME, Map.empty), (IMAGE_CACHE_NAME, [url logo_request \<mapsto> page ''logo''])])) =
     [CachesMatch (ReqObj logo_script_request)] \<and>
   page ''logo'' \<noteq> page ''fresh'' \<and>
   url_origin (sample_env (online not_found)) (url style_request) =
     location_origin (sample_env (online not_found)) \<and>
   mode style_request \<noteq> ''navigate'' \<and>
   destination style_request \<noteq> ''image'' \<and>
   storage_match (url style_request) [] = None \<and>
   network (sample_env (online not_found)) 0 style_request = Some not_found \<and>
   fst (fetch_handler (sample_env (online not_found)) style_request []) =
     RespondWith (Inr not_found) \<and>
   entry CACHE_NAME (url style_request)
     (caches (snd (fetch_handler (sample_env (online not_found)) style_request []))) = None"
  by (simp add: handler_defs sample_defs ok_def entry_def CACHE_NAME_def IMAGE_CACHE_NAME_def)

subsection \<open>All requests\<close>

text \<open>
  C9. A request whose origin differs from the worker's origin is not intercepted: the
  handler returns without responding, makes no call to the host at all (so no cache read and
  no cache write), and leaves the cache storage as it was.
\<close>

theorem cross_origin_not_intercepted:
  assumes "url_origin env (url request) \<noteq> location_origin env"
  shows "fetch_handler env request cs = (NotIntercepted, \<lparr>caches = cs, trace = []\<rparr>)"
  using assms by (simp add: fetch_handler_def init_def)

theorem cross_origin_not_intercepted_witness:
  "url_origin (sample_env (online (page ''font''))) (url font_request) \<noteq>
     location_origin (sample_env (online (page ''font''))) \<and>
   fetch_handler (sample_env (online (page ''font''))) font_request
     [(CACHE_NAME, [url font_request \<mapsto> page ''stored''])] =
     (NotIntercepted,
      \<lparr>caches = [(CACHE_NAME, [url font_request \<mapsto> page ''stored''])], trace = []\<rparr>)"
proof -
  let ?E = "sample_env (online (page ''font''))"
  have h: "url_origin ?E (url font_request) \<noteq> location_origin ?E"
    by (simp add: sample_defs)
  show ?thesis
    using cross_origin_not_intercepted [OF h] h by simp
qed

text \<open>
  C4. For every same-origin request, whatever the network and the caches answer, the
  promise that the handler responds with resolves to a response and never rejects. The
  response is the answer of the network, an entry of the cache storage, or one of the three
  synthesized responses.
\<close>

theorem same_origin_always_responds:
  assumes "url_origin env (url request) = location_origin env"
  shows "\<exists>r. fst (fetch_handler env request cs) = RespondWith (Inr r) \<and>
           (network env 0 request = Some r \<or> (\<exists>p \<in> set cs. \<exists>k. snd p k = Some r) \<or>
            r = offline_unavailable \<or> r = placeholder_image \<or> r = resource_unavailable)"
proof (cases "mode request = ''navigate''")
  case True
  then show ?thesis using assms
    by (auto simp add: handler_defs split: option.splits dest!: storage_match_in)
next
  case nav: False
  show ?thesis
  proof (cases "destination request = ''image''")
    case True
    show ?thesis
    proof (cases "entry IMAGE_CACHE_NAME (url request) cs")
      case None
      then show ?thesis using assms nav True
        by (auto simp add: handler_defs entry_def map_add_def split: option.splits)
    next
      case (Some r)
      then have "\<exists>p \<in> set cs. snd p (url request) = Some r"
        by (rule entry_in)
      moreover have "fst (fetch_handler env request cs) = RespondWith (Inr r)"
        using Some assms nav True
        by (auto simp add: handler_defs entry_def map_add_def split: option.splits)
      ultimately show ?thesis by blast
    qed
  next
    case False
    then show ?thesis using assms nav
      by (auto simp add: handler_defs split: option.splits dest!: storage_match_in)
  qed
qed

theorem same_origin_always_responds_witness:
  "url_origin (sample_env offline) (url style_request) = location_origin (sample_env offline) \<and>
   (\<exists>r. fst (fetch_handler (sample_env offline) style_request []) = RespondWith (Inr r) \<and>
        (r = offline_unavailable \<or> r = placeholder_image \<or> r = resource_unavailable))"
proof -
  let ?E = "sample_env offline"
  have h: "url_origin ?E (url style_request) = location_origin ?E"
    by (simp add: sample_defs)
  have n: "network ?E 0 style_request = None"
    by (simp add: sample_defs)
  show ?thesis
    using same_origin_always_responds [OF h, of "[]"] h n by simp
qed

text \<open>
  C10. Every response that the fetch handler writes into a cache is ok. When the network
  answers the request with a response that is not ok, the handler writes nothing (every
  entry of every namespace is as before), and whenever it has fetched, it responds with
  that answer.
\<close>

theorem cache_writes_are_ok:
  "(\<forall>name q r. CachePut name q r \<in> set (trace (snd (fetch_handler env request cs))) \<longrightarrow> ok r) \<and>
   (\<forall>r. network env 0 request = Some r \<and> \<not> ok r \<longrightarrow>
      filter is_CachePut (trace (snd (fetch_handler env request cs))) = [] \<and>
      (\<forall>name key. entry name key (caches (snd (fetch_handler env request cs))) =
                   entry name key cs) \<and>
      (filter is_Fetch (trace (snd (fetch_handler env request cs))) \<noteq> [] \<longrightarrow>
         fst (fetch_handler env request cs) = RespondWith (Inr r)))"
  by (auto simp add: handler_defs entry_append_empty split: option.splits)

theorem cache_writes_are_ok_witness:
  "network (sample_env (online not_found)) 0 logo_request = Some not_found \<and>
   \<not> ok not_found \<and>
   filter is_Fetch (trace (snd (fetch_handler (sample_env (online not_found)) logo_request []))) \<noteq> [] \<and>
   filter is_CachePut (trace (snd (fetch_handler (sample_env (online not_found)) logo_request []))) = [] \<and>
   fst (fetch_handler (sample_env (online not_found)) logo_request []) =
     RespondWith (Inr not_found) \<and>
   CachePut CACHE_NAME menu_request (page ''menu'') \<in>
     set (trace (snd (fetch_handler (sample_env (online (page ''menu''))) menu_request []))) \<and>
   ok (page ''menu'')"
proof -
  let ?E = "sample_env (online not_found)"
  let ?F = "sample_env (online (page ''menu''))"
  have h1: "network ?E 0 logo_request = Some not_found"
    by (simp add: sample_defs)
  have h2: "\<not> ok not_found"
    by (simp add: ok_def not_found_def)
  have h3: "filter is_Fetch (trace (snd (fetch_handler ?E logo_request []))) \<noteq> []"
    by (simp add: handler_defs sample_defs ok_def)
  have h4: "CachePut CACHE_NAME menu_request (page ''menu'') \<in>
              set (trace (snd (fetch_handler ?F menu_request [])))"
    by (simp add: handler_defs sample_defs ok_def)
  show ?thesis
    using cache_writes_are_ok [of ?E logo_request "[]"]
      cache_writes_are_ok [of ?F menu_request "[]"] h1 h2 h3 h4
    by blast
qed

subsection \<open>Lifecycle\<close>

text \<open>
  C2. After the activate handler has run on any cache storage, a namespace that existed is
  deleted exactly when its name starts with the site's prefix and differs from the current
  static name and from the current image name; the namespaces that remain are untouched and
  keep their order. This holds for any prefix and any two current names, and so for the
  worker's own (\<^verbatim>\<open>cafe-serenity-\<close>, \<open>CACHE_NAME\<close>, \<open>IMAGE_CACHE_NAME\<close>). In the scenario
  of the existing namespaces \<^verbatim>\<open>site-v1\<close>, \<^verbatim>\<open>site-v2\<close>, \<^verbatim>\<open>images-v1\<close> with the current
  names \<^verbatim>\<open>site-v2\<close> and \<^verbatim>\<open>images-v1\<close>, and with any site prefix that \<^verbatim>\<open>site-v1\<close>
  starts with, activation deletes exactly \<^verbatim>\<open>site-v1\<close> and leaves the other two as they
  were.
\<close>

theorem activate_evicts_stale:
  "(name \<in> set (map fst cs) \<longrightarrow>
      (name \<in> set (deleted (trace (activate_with pre current images cs))) \<longleftrightarrow>
       startsWith name pre \<and> name \<noteq> current \<and> name \<noteq> images)) \<and>
   caches (activate_with pre current images cs) =
     filter (\<lambda>p. \<not> (startsWith (fst p) pre \<and> fst p \<noteq> current \<and> fst p \<noteq> images)) cs \<and>
   caches (activate cs) =
     filter (\<lambda>p. \<not> (startsWith (fst p) ''cafe-serenity-'' \<and> fst p \<noteq> CACHE_NAME \<and>
                      fst p \<noteq> IMAGE_CACHE_NAME)) cs \<and>
   (startsWith ''site-v1'' pre \<longrightarrow>
      deleted (trace (activate_with pre ''site-v2'' ''images-v1''
                 [(''site-v1'', a), (''site-v2'', b), (''images-v1'', c)])) = [''site-v1''] \<and>
      caches (activate_with pre ''site-v2'' ''images-v1''
                 [(''site-v1'', a), (''site-v2'', b), (''images-v1'', c)]) =
        [(''site-v2'', b), (''images-v1'', c)])"
  by (simp add: activate_with_caches activate_with_deleted activate_def)

theorem activate_evicts_stale_witness:
  "''site-v1'' \<in> set (map fst [(''site-v1'', [''k'' \<mapsto> page ''one'']),
                                (''site-v2'', [''k'' \<mapsto> page ''two'']),
                                (''images-v1'', Map.empty)]) \<and>
   startsWith ''site-v1'' ''site-'' \<and>
   ''site-v1'' \<noteq> ''site-v2'' \<and> ''site-v1'' \<noteq> ''images-v1'' \<and>
   ''site-v1'' \<in> set (deleted (trace (activate_with ''site-'' ''site-v2'' ''images-v1''
      [(''site-v1'', [''k'' \<mapsto> page ''one'']),
       (''site-v2'', [''k'' \<mapsto> page ''two'']),
       (''images-v1'', Map.empty)]))) \<and>
   deleted (trace (activate_with ''site-'' ''site-v2'' ''images-v1''
      [(''site-v1'', [''k'' \<mapsto> page ''one'']),
       (''site-v2'', [''k'' \<mapsto> page ''two'']),
       (''images-v1'', Map.empty)])) = [''site-v1''] \<and>
   caches (activate_with ''site-'' ''site-v2'' ''images-v1''
      [(''site-v1'', [''k'' \<mapsto> page ''one'']),
       (''site-v2'', [''k'' \<mapsto> page ''two'']),
       (''images-v1'', Map.empty)]) =
     [(''site-v2'', [''k'' \<mapsto> page ''two'']), (''images-v1'', Map.empty)]"
proof -
  let ?cs = "[(''site-v1'', [''k'' \<mapsto> page ''one'']),
              (''site-v2'', [''k'' \<mapsto> page ''two'']),
              (''images-v1'', Map.empty :: cache)]"
  have h1: "''site-v1'' \<in> set (map fst ?cs)"
    by simp
  have h2: "startsWith ''site-v1'' ''site-''"
    by (simp add: startsWith_def)
  show ?thesis
    using activate_evicts_stale [of "''site-v1''" ?cs "''site-''" "''site-v2''" "''images-v1''"
        "[''k'' \<mapsto> page ''one'']" "[''k'' \<mapsto> page ''two'']" "Map.empty"] h1 h2
    by simp
qed

text \<open>
  C3. When the fetch of any URL of the manifest fails during install, the promise of the
  install handler rejects, so the installation fails; nothing has been written: no
  \<open>put\<close> was made and every entry of every namespace is as before. In particular this
  holds for a manifest of five URLs whose third fetch fails, and for the worker's own
  manifest \<open>STATIC_CACHE_URLS\<close>.
\<close>

theorem install_all_or_nothing:
  "(i < length manifest \<and> network env i (Request env (manifest ! i)) = None \<longrightarrow>
      fst (install_with manifest env cs) = Inl TypeError \<and>
      filter is_CachePut (trace (snd (install_with manifest env cs))) = [] \<and>
      (\<forall>name key. entry name key (caches (snd (install_with manifest env cs))) =
                   entry name key cs)) \<and>
   (length manifest = 5 \<and> network env 2 (Request env (manifest ! 2)) = None \<longrightarrow>
      fst (install_with manifest env cs) = Inl TypeError) \<and>
   (i < length STATIC_CACHE_URLS \<and> network env i (Request env (STATIC_CACHE_URLS ! i)) = None \<longrightarrow>
      fst (install env cs) = Inl TypeError)"
  using install_with_fails [of i manifest env cs] install_with_fails [of 2 manifest env cs]
    install_with_fails [of i STATIC_CACHE_URLS env cs]
  by (simp add: install_def)

theorem install_all_or_nothing_witness:
  "length manifest5 = 5 \<and>
   network (sample_env (fails_at 2)) 2 (Request (sample_env (fails_at 2)) (manifest5 ! 2)) = None \<and>
   fst (install_with manifest5 (sample_env (fails_at 2)) []) = Inl TypeError \<and>
   filter is_CachePut (trace (snd (install_with manifest5 (sample_env (fails_at 2)) []))) = [] \<and>
   entry CACHE_NAME ''https://cafe.example/index.html''
     (caches (snd (install_with manifest5 (sample_env (fails_at 2)) []))) = None"
proof -
  let ?E = "sample_env (fails_at 2)"
  have h1: "length manifest5 = 5"
    by (simp add: manifest5_def)
  have h2: "network ?E 2 (Request ?E (manifest5 ! 2)) = None"
    by (simp add: sample_env_def fails_at_def)
  have h3: "(2::nat) < length manifest5"
    by (simp add: manifest5_def)
  have h4: "entry CACHE_NAME ''https://cafe.example/index.html'' [] = None"
    by (simp add: entry_def)
  show ?thesis
    using install_all_or_nothing [of 2 manifest5 ?E "[]"] h1 h2 h3 h4 by simp
qed

end
